theory Spec2Isabelle
  imports Complex_Main "HOL-Library.Multiset"
begin

section \<open>Tax calculator (services/tax\_calculator.py)\<close>

text \<open>
  Amounts are Python floats in the source. They are modelled as exact reals, so every
  statement below is about the arithmetic the code writes down, not about IEEE rounding.
  The one non-finite float the source uses, \<open>float('inf')\<close> as the upper end of the top
  bracket, is kept as a constructor of its own.
\<close>

datatype FilingStatus = SINGLE | MARRIED | HEAD_OF_HOUSEHOLD

datatype py_error = ValueError | TypeError

datatype bound = Fin real | Inf

record TaxBracket =
  rate :: real
  min_income :: real
  max_income :: bound

definition mk_bracket :: "real \<Rightarrow> real \<Rightarrow> bound \<Rightarrow> TaxBracket" where
  "mk_bracket r lo hi = \<lparr>rate = r, min_income = lo, max_income = hi\<rparr>"

definition single_brackets :: "TaxBracket list" where
  "single_brackets =
    [mk_bracket 0.10 0 (Fin 11600),
     mk_bracket 0.12 11600 (Fin 47150),
     mk_bracket 0.22 47150 (Fin 100525),
     mk_bracket 0.24 100525 (Fin 191950),
     mk_bracket 0.32 191950 (Fin 243725),
     mk_bracket 0.35 243725 (Fin 609350),
     mk_bracket 0.37 609350 Inf]"

definition married_brackets :: "TaxBracket list" where
  "married_brackets =
    [mk_bracket 0.10 0 (Fin 23200),
     mk_bracket 0.12 23200 (Fin 94300),
     mk_bracket 0.22 94300 (Fin 201050),
     mk_bracket 0.24 201050 (Fin 383900),
     mk_bracket 0.32 383900 (Fin 487450),
     mk_bracket 0.35 487450 (Fin 731200),
     mk_bracket 0.37 731200 Inf]"

definition hoh_brackets :: "TaxBracket list" where
  "hoh_brackets =
    [mk_bracket 0.10 0 (Fin 16550),
     mk_bracket 0.12 16550 (Fin 63100),
     mk_bracket 0.22 63100 (Fin 100500),
     mk_bracket 0.24 100500 (Fin 191950),
     mk_bracket 0.32 191950 (Fin 243700),
     mk_bracket 0.35 243700 (Fin 609350),
     mk_bracket 0.37 609350 Inf]"

fun standard_deductions :: "FilingStatus \<Rightarrow> real" where
  "standard_deductions SINGLE = 14600"
| "standard_deductions MARRIED = 29200"
| "standard_deductions HEAD_OF_HOUSEHOLD = 21900"

fun get_brackets_for_status :: "FilingStatus \<Rightarrow> TaxBracket list" where
  "get_brackets_for_status SINGLE = single_brackets"
| "get_brackets_for_status MARRIED = married_brackets"
| "get_brackets_for_status HEAD_OF_HOUSEHOLD = hoh_brackets"

text \<open>
  \<open>min(income - min_income, max_income - min_income)\<close>: with an infinite upper end the
  second argument is infinite and the minimum is the first.
\<close>

definition taxable_in_bracket_of :: "real \<Rightarrow> TaxBracket \<Rightarrow> real" where
  "taxable_in_bracket_of income b =
     (case max_income b of
        Inf \<Rightarrow> income - min_income b
      | Fin hi \<Rightarrow> min (income - min_income b) (hi - min_income b))"

definition calculate_tax_for_bracket :: "real \<Rightarrow> TaxBracket \<Rightarrow> real" where
  "calculate_tax_for_bracket income b =
     (if income \<le> min_income b then 0
      else taxable_in_bracket_of income b * rate b)"

text \<open>The loop of \<open>calculate_marginal_tax\<close>, with \<open>total_tax\<close> as the accumulator.\<close>

fun marginal_tax_loop :: "real \<Rightarrow> TaxBracket list \<Rightarrow> real \<Rightarrow> real" where
  "marginal_tax_loop taxable_income [] total_tax = total_tax"
| "marginal_tax_loop taxable_income (b # bs) total_tax =
     (if taxable_income > min_income b
      then marginal_tax_loop taxable_income bs
             (total_tax + calculate_tax_for_bracket taxable_income b)
      else marginal_tax_loop taxable_income bs total_tax)"

definition calculate_marginal_tax :: "real \<Rightarrow> FilingStatus \<Rightarrow> real" where
  "calculate_marginal_tax taxable_income filing_status =
     marginal_tax_loop taxable_income (get_brackets_for_status filing_status) 0"

definition calculate_standard_deduction :: "FilingStatus \<Rightarrow> int \<Rightarrow> real" where
  "calculate_standard_deduction filing_status age =
     (let base_deduction = standard_deductions filing_status in
      if age \<ge> 65 then
        (if filing_status = SINGLE then base_deduction + 1850
         else if filing_status = MARRIED then base_deduction + 1500
         else if filing_status = HEAD_OF_HOUSEHOLD then base_deduction + 1850
         else base_deduction)
      else base_deduction)"

text \<open>
  An entry of the bracket breakdown. The source formats the rate and the income range
  into two display strings (\<open>'bracket'\<close>, \<open>'income_range'\<close>); the entry keeps the bracket
  they are printed from instead.
\<close>

record BracketEntry =
  bracket :: TaxBracket
  taxable_in_bracket :: real
  tax_for_bracket :: real

fun bracket_breakdown_loop ::
  "real \<Rightarrow> TaxBracket list \<Rightarrow> BracketEntry list \<Rightarrow> BracketEntry list" where
  "bracket_breakdown_loop taxable_income [] breakdown = breakdown"
| "bracket_breakdown_loop taxable_income (b # bs) breakdown =
     (if taxable_income > min_income b
      then bracket_breakdown_loop taxable_income bs
             (breakdown @
               [\<lparr>bracket = b,
                 taxable_in_bracket = taxable_in_bracket_of taxable_income b,
                 tax_for_bracket = calculate_tax_for_bracket taxable_income b\<rparr>])
      else bracket_breakdown_loop taxable_income bs breakdown)"

definition get_bracket_breakdown :: "real \<Rightarrow> FilingStatus \<Rightarrow> BracketEntry list" where
  "get_bracket_breakdown taxable_income filing_status =
     bracket_breakdown_loop taxable_income (get_brackets_for_status filing_status) []"


text \<open>The nested dictionaries of the \<open>breakdown\<close> field, one record per dictionary.\<close>

record IncomeBreakdown =
  ib_wages :: real
  ib_interest_income :: real
  ib_nonemployee_compensation :: real
  ib_total_income :: real

record Deductions =
  dd_standard_deduction :: real
  dd_agi :: real
  dd_taxable_income :: real

record TaxCalculation =
  tc_tax_liability :: real
  tc_total_payments :: real
  tc_refund_or_amount_owed :: real

record Breakdown =
  income_breakdown :: IncomeBreakdown
  deductions :: Deductions
  tax_calculation :: TaxCalculation
  bracket_breakdown :: "BracketEntry list"

record TaxCalculationResult =
  filing_status :: FilingStatus
  total_income :: real
  adjusted_gross_income :: real
  standard_deduction :: real
  taxable_income :: real
  tax_liability :: real
  total_payments :: real
  refund_or_amount_owed :: real
  breakdown :: Breakdown

text \<open>
  \<open>str.lower()\<close> on the ASCII letters. Characters are bytes here; no character outside
  ASCII lowercases to a letter of the three status names, so the lookup below decides
  the same strings as the source.
\<close>

definition lower_char :: "char \<Rightarrow> char" where
  "lower_char c =
     (case map_of (zip ''ABCDEFGHIJKLMNOPQRSTUVWXYZ'' ''abcdefghijklmnopqrstuvwxyz'') c of
        Some d \<Rightarrow> d
      | None \<Rightarrow> c)"

definition py_lower :: "string \<Rightarrow> string" where
  "py_lower s = map lower_char s"

text \<open>\<open>FilingStatus(value)\<close>: the enum lookup by value, which raises \<open>ValueError\<close>.\<close>

definition FilingStatus_of_value :: "string \<Rightarrow> py_error + FilingStatus" where
  "FilingStatus_of_value v =
     (if v = ''single'' then Inr SINGLE
      else if v = ''married'' then Inr MARRIED
      else if v = ''head_of_household'' then Inr HEAD_OF_HOUSEHOLD
      else Inl ValueError)"

definition calculate_tax ::
  "string \<Rightarrow> real \<Rightarrow> real \<Rightarrow> real \<Rightarrow> real \<Rightarrow> int \<Rightarrow> int \<Rightarrow> py_error + TaxCalculationResult" where
  "calculate_tax filing_status_str wages interest_income nonemployee_compensation
       federal_income_tax_withheld dependents age =
     (case FilingStatus_of_value (py_lower filing_status_str) of
        Inl e \<Rightarrow> Inl e
      | Inr status_enum \<Rightarrow>
          (let total_income' = wages + interest_income + nonemployee_compensation;
               agi = total_income';
               standard_deduction' = calculate_standard_deduction status_enum age;
               taxable_income' = max 0 (agi - standard_deduction');
               tax_liability' = calculate_marginal_tax taxable_income' status_enum;
               total_payments' = federal_income_tax_withheld;
               refund_or_amount_owed' = total_payments' - tax_liability';
               breakdown' =
                 \<lparr>income_breakdown =
                    \<lparr>ib_wages = wages, ib_interest_income = interest_income,
                     ib_nonemployee_compensation = nonemployee_compensation,
                     ib_total_income = total_income'\<rparr>,
                  deductions =
                    \<lparr>dd_standard_deduction = standard_deduction', dd_agi = agi,
                     dd_taxable_income = taxable_income'\<rparr>,
                  tax_calculation =
                    \<lparr>tc_tax_liability = tax_liability', tc_total_payments = total_payments',
                     tc_refund_or_amount_owed = refund_or_amount_owed'\<rparr>,
                  bracket_breakdown = get_bracket_breakdown taxable_income' status_enum\<rparr>
           in Inr \<lparr>filing_status = status_enum,
                   total_income = total_income',
                   adjusted_gross_income = agi,
                   standard_deduction = standard_deduction',
                   taxable_income = taxable_income',
                   tax_liability = tax_liability',
                   total_payments = total_payments',
                   refund_or_amount_owed = refund_or_amount_owed',
                   breakdown = breakdown'\<rparr>))"


text \<open>
  Values that reach the code from JSON requests and from the extracted-field
  dictionaries. A dictionary is an association list in insertion order.
\<close>

datatype pyval = PInt int | PFloat real | PStr string | PNone

type_synonym pydict = "(string \<times> pyval) list"

fun dict_set :: "pydict \<Rightarrow> string \<Rightarrow> pyval \<Rightarrow> pydict" where
  "dict_set [] k v = [(k, v)]"
| "dict_set ((k', v') # d) k v =
     (if k' = k then (k, v) # d else (k', v') # dict_set d k v)"

definition dict_has :: "pydict \<Rightarrow> string \<Rightarrow> bool" where
  "dict_has d k = (map_of d k \<noteq> None)"

definition dict_get :: "pydict \<Rightarrow> string \<Rightarrow> pyval \<Rightarrow> pyval" where
  "dict_get d k dflt = (case map_of d k of Some v \<Rightarrow> v | None \<Rightarrow> dflt)"

text \<open>\<open>value < c\<close> and \<open>value > c\<close> against a number; a string or \<open>None\<close> raises.\<close>

fun py_lt :: "pyval \<Rightarrow> real \<Rightarrow> py_error + bool" where
  "py_lt (PInt i) c = Inr (real_of_int i < c)"
| "py_lt (PFloat x) c = Inr (x < c)"
| "py_lt (PStr s) c = Inl TypeError"
| "py_lt PNone c = Inl TypeError"

fun py_gt :: "pyval \<Rightarrow> real \<Rightarrow> py_error + bool" where
  "py_gt (PInt i) c = Inr (real_of_int i > c)"
| "py_gt (PFloat x) c = Inr (x > c)"
| "py_gt (PStr s) c = Inl TypeError"
| "py_gt PNone c = Inl TypeError"

fun is_number :: "pyval \<Rightarrow> bool" where
  "is_number (PInt i) = True"
| "is_number (PFloat x) = True"
| "is_number (PStr s) = False"
| "is_number PNone = False"

fun number_of :: "pyval \<Rightarrow> real" where
  "number_of (PInt i) = real_of_int i"
| "number_of (PFloat x) = x"
| "number_of (PStr s) = 0"
| "number_of PNone = 0"

record InputValidation =
  iv_is_valid :: bool
  iv_errors :: "string list"
  iv_warnings :: "string list"

definition valid_statuses :: "string list" where
  "valid_statuses = [''single'', ''married'', ''head_of_household'']"

definition negative_errors :: "pydict \<Rightarrow> string list" where
  "negative_errors kwargs =
     map (\<lambda>(key, v). key @ '' cannot be negative'')
         (filter (\<lambda>(key, v). is_number v \<and> number_of v < 0) kwargs)"

definition filing_status_errors :: "pydict \<Rightarrow> string list" where
  "filing_status_errors kwargs =
     (case map_of kwargs ''filing_status'' of
        None \<Rightarrow> []
      | Some v \<Rightarrow>
          (if (case v of PStr s \<Rightarrow> s \<notin> set valid_statuses | _ \<Rightarrow> True)
           then [''Invalid filing status. Must be one of: ['single', 'married', 'head_of_household']'']
           else []))"

text \<open>
  \<open>validate_inputs(**kwargs)\<close>. The comparisons on \<open>dependents\<close> and \<open>age\<close> are not
  guarded by \<open>isinstance\<close>, so a non-number there raises \<open>TypeError\<close>.
\<close>

definition validate_inputs :: "pydict \<Rightarrow> py_error + InputValidation" where
  "validate_inputs kwargs =
     (let errors1 = negative_errors kwargs @ filing_status_errors kwargs in
      case (case map_of kwargs ''dependents'' of
              None \<Rightarrow> Inr errors1
            | Some v \<Rightarrow>
                (case py_lt v 0 of
                   Inl e \<Rightarrow> Inl e
                 | Inr neg \<Rightarrow>
                     Inr (if neg then errors1 @ [''Number of dependents cannot be negative'']
                          else errors1))) of
        Inl e \<Rightarrow> Inl e
      | Inr errors2 \<Rightarrow>
          (case (case map_of kwargs ''age'' of
                   None \<Rightarrow> Inr []
                 | Some v \<Rightarrow>
                     (case py_lt v 0 of
                        Inl e \<Rightarrow> Inl e
                      | Inr True \<Rightarrow> Inr [''Age seems unusual, please verify'']
                      | Inr False \<Rightarrow>
                          (case py_gt v 120 of
                             Inl e \<Rightarrow> Inl e
                           | Inr old \<Rightarrow>
                               Inr (if old then [''Age seems unusual, please verify'']
                                    else [])))) of
             Inl e \<Rightarrow> Inl e
           | Inr warnings' \<Rightarrow>
               Inr \<lparr>iv_is_valid = (length errors2 = 0),
                    iv_errors = errors2,
                    iv_warnings = warnings'\<rparr>))"


section \<open>Document processor (services/document\_processor.py)\<close>

datatype DocumentType = W2 | INT_1099 | NEC_1099 | UNKNOWN

record ExtractedData =
  document_type :: DocumentType
  confidence_score :: real
  data :: pydict
  raw_text :: string
  filename :: string

subsection \<open>String operations of Python used by the processor\<close>

text \<open>
  Text is a list of 8-bit characters, and the case mapping and the whitespace set are
  those of ASCII.
\<close>

definition upper_char :: "char \<Rightarrow> char" where
  "upper_char c =
     (case map_of (zip ''abcdefghijklmnopqrstuvwxyz'' ''ABCDEFGHIJKLMNOPQRSTUVWXYZ'') c of
        Some d \<Rightarrow> d
      | None \<Rightarrow> c)"

definition py_upper :: "string \<Rightarrow> string" where
  "py_upper s = map upper_char s"

fun starts_with :: "string \<Rightarrow> string \<Rightarrow> bool" where
  "starts_with s [] = True"
| "starts_with [] (p # ps) = False"
| "starts_with (c # cs) (p # ps) = (c = p \<and> starts_with cs ps)"

text \<open>\<open>sub in s\<close>\<close>

fun py_in :: "string \<Rightarrow> string \<Rightarrow> bool" where
  "py_in sub [] = (sub = [])"
| "py_in sub (c # cs) = (starts_with (c # cs) sub \<or> py_in sub cs)"

text \<open>\<open>s.split(sep)\<close> for a one-character separator\<close>

fun split_on :: "char \<Rightarrow> string \<Rightarrow> string list" where
  "split_on sep [] = [[]]"
| "split_on sep (c # cs) =
     (if c = sep then [] # split_on sep cs
      else (case split_on sep cs of
              [] \<Rightarrow> [[c]]
            | w # ws \<Rightarrow> (c # w) # ws))"

definition is_space :: "char \<Rightarrow> bool" where
  "is_space c =
     (c \<in> set [CHR 0x20, CHR 0x09, CHR 0x0A, CHR 0x0B, CHR 0x0C, CHR 0x0D,
                CHR 0x1C, CHR 0x1D, CHR 0x1E, CHR 0x1F])"

text \<open>\<open>s.split()\<close>: the maximal runs of non-whitespace, \<open>w\<close> being the run being read\<close>

fun split_ws :: "string \<Rightarrow> string \<Rightarrow> string list" where
  "split_ws w [] = (if w = [] then [] else [w])"
| "split_ws w (c # cs) =
     (if is_space c then (if w = [] then split_ws [] cs else w # split_ws [] cs)
      else split_ws (w @ [c]) cs)"

definition py_split :: "string \<Rightarrow> string list" where
  "py_split s = split_ws [] s"

definition py_strip :: "string \<Rightarrow> string" where
  "py_strip s = rev (dropWhile is_space (rev (dropWhile is_space s)))"

text \<open>\<open>s.replace(',', '')\<close>\<close>

definition remove_commas :: "string \<Rightarrow> string" where
  "remove_commas s = filter (\<lambda>c. c \<noteq> CHR '','') s"

definition digit_of :: "char \<Rightarrow> nat option" where
  "digit_of c = map_of (zip ''0123456789'' [0, 1, 2, 3, 4, 5, 6, 7, 8, 9]) c"

definition is_digit :: "char \<Rightarrow> bool" where
  "is_digit c = (digit_of c \<noteq> None)"

definition py_isdigit :: "string \<Rightarrow> bool" where
  "py_isdigit s = (s \<noteq> [] \<and> list_all is_digit s)"

text \<open>The value of a string of decimal digits, as \<open>int(s)\<close> reads it\<close>

definition digits_value :: "string \<Rightarrow> nat" where
  "digits_value s =
     foldl (\<lambda>n c. 10 * n + (case digit_of c of Some d \<Rightarrow> d | None \<Rightarrow> 0)) 0 s"

text \<open>
  \<open>float(s)\<close> is read by this model where \<open>s\<close> is a plain decimal: digits with an
  optional fraction and an optional sign. The other spellings Python's \<open>float\<close> accepts
  or rejects (exponents, underscores, \<open>inf\<close>, \<open>nan\<close>, surrounding whitespace) are left to
  the parameter \<open>float_other\<close>. \<open>re.findall\<close> is the other library function the parsers
  call; it is a parameter as well. For a pattern with several groups Python returns
  tuples, of which the parsers only test whether there are any.
\<close>

record py_lib =
  re_findall :: "string \<Rightarrow> string \<Rightarrow> string list"
  float_other :: "string \<Rightarrow> py_error + real"

definition plain_decimal :: "string \<Rightarrow> bool" where
  "plain_decimal s =
     (let ip = takeWhile is_digit s; rest = dropWhile is_digit s in
      case rest of
        [] \<Rightarrow> ip \<noteq> []
      | d # fp \<Rightarrow> d = CHR ''.'' \<and> list_all is_digit fp \<and> \<not> (ip = [] \<and> fp = []))"

definition decimal_value :: "string \<Rightarrow> real" where
  "decimal_value s =
     (let ip = takeWhile is_digit s; fp = drop 1 (dropWhile is_digit s) in
      real (digits_value ip) + real (digits_value fp) / 10 ^ length fp)"

definition py_float :: "py_lib \<Rightarrow> string \<Rightarrow> py_error + real" where
  "py_float L s =
     (case s of
        c # r \<Rightarrow>
          (if c = CHR ''-'' \<and> plain_decimal r then Inr (- decimal_value r)
           else if c = CHR ''+'' \<and> plain_decimal r then Inr (decimal_value r)
           else if plain_decimal s then Inr (decimal_value s)
           else float_other L s)
      | [] \<Rightarrow> float_other L s)"


subsection \<open>Classification\<close>

definition w2_indicators :: "string list" where
  "w2_indicators = [''FORM W-2'', ''WAGE AND TAX STATEMENT'', ''EMPLOYER IDENTIFICATION NUMBER'']"

definition int_indicators :: "string list" where
  "int_indicators = [''FORM 1099-INT'', ''INTEREST INCOME'', ''PAYER'S NAME'']"

definition nec_indicators :: "string list" where
  "nec_indicators = [''FORM 1099-NEC'', ''NONEMPLOYEE COMPENSATION'', ''PAYER'S NAME'']"

text \<open>\<open>sum(1 for indicator in indicators if indicator in text_upper)\<close>\<close>

definition count_present :: "string list \<Rightarrow> string \<Rightarrow> nat" where
  "count_present indicators text_upper =
     length (filter (\<lambda>indicator. py_in indicator text_upper) indicators)"

text \<open>
  \<open>max(scores, key=scores.get)\<close> over the keys of a dictionary in insertion order:
  the running maximum is replaced only by a strictly larger score.
\<close>

fun max_by_score :: "('k \<times> real) \<Rightarrow> ('k \<times> real) list \<Rightarrow> ('k \<times> real)" where
  "max_by_score best [] = best"
| "max_by_score best (kv # rest) =
     (if snd kv > snd best then max_by_score kv rest else max_by_score best rest)"

definition detect_document_type :: "string \<Rightarrow> DocumentType \<times> real" where
  "detect_document_type text =
     (let text_upper = py_upper text;
          w2_score = count_present w2_indicators text_upper;
          int_score = count_present int_indicators text_upper;
          nec_score = count_present nec_indicators text_upper
      in max_by_score
           (W2, real w2_score / real (length w2_indicators))
           [(INT_1099, real int_score / real (length int_indicators)),
            (NEC_1099, real nec_score / real (length nec_indicators))])"

subsection \<open>Field extraction\<close>

definition backslash :: char where
  "backslash = CHR 0x5C"

definition amount_pair_pattern :: string where
  "amount_pair_pattern =
     ''('' @ backslash # ''d{1,3}(?:,'' @ backslash # ''d{3})*)'' @ backslash # ''s+('' @ backslash # ''d{1,3}(?:,'' @ backslash # ''d{3})*)''"

definition amount_pattern :: string where
  "amount_pattern = ''('' @ backslash # ''d{1,3}(?:,'' @ backslash # ''d{3})*)''"

definition ein_pattern :: string where
  "ein_pattern = ''('' @ backslash # ''d{2}-'' @ backslash # ''d{7})''"

definition ssn_pattern :: string where
  "ssn_pattern = ''('' @ backslash # ''d{3}-'' @ backslash # ''d{2}-'' @ backslash # ''d{4})''"

definition person_name_pattern :: string where
  "person_name_pattern = ''([A-Za-z'' @ backslash # ''s]+)''"

definition company_name_pattern :: string where
  "company_name_pattern = ''([A-Z'' @ backslash # ''s&]+(?:CORP|INC|LLC|LTD|COMPANY|CO))''"

definition bank_name_pattern :: string where
  "bank_name_pattern = ''([A-Z'' @ backslash # ''s&]+(?:BANK|CORP|INC|LLC|LTD|COMPANY|CO))''"

definition w2_patterns :: "(string \<times> string) list" where
  "w2_patterns =
     [(''employer_ein'', ein_pattern),
      (''employer_name'', company_name_pattern),
      (''employee_name'', person_name_pattern),
      (''employee_ssn'', ssn_pattern),
      (''wages'', amount_pair_pattern),
      (''federal_tax_withheld'', amount_pair_pattern),
      (''social_security_wages'', amount_pair_pattern),
      (''social_security_tax'', amount_pair_pattern),
      (''medicare_wages'', amount_pair_pattern),
      (''medicare_tax'', amount_pair_pattern),
      (''state'', ''([A-Z]{2})''),
      (''state_wages'', amount_pair_pattern @ backslash # ''s+([A-Z]{2})''),
      (''state_tax'', amount_pair_pattern @ backslash # ''s+([A-Z]{2})'')]"

definition int_1099_patterns :: "(string \<times> string) list" where
  "int_1099_patterns =
     [(''payer_name'', bank_name_pattern),
      (''payer_tin'', ein_pattern),
      (''recipient_ssn'', ssn_pattern),
      (''recipient_name'', person_name_pattern),
      (''account_number'', ''([A-Z0-9-]+)''),
      (''interest_income'', amount_pattern),
      (''federal_tax_withheld'', amount_pattern)]"

definition nec_1099_patterns :: "(string \<times> string) list" where
  "nec_1099_patterns =
     [(''payer_name'', company_name_pattern),
      (''payer_tin'', ein_pattern),
      (''recipient_ssn'', ssn_pattern),
      (''recipient_name'', person_name_pattern),
      (''account_number'', ''([A-Z0-9-]+)''),
      (''nonemployee_compensation'', amount_pattern),
      (''federal_tax_withheld'', amount_pattern)]"

text \<open>
  The state of a parser: the \<open>data\<close> dictionary and \<open>total_matches\<close>. A loop over the
  lines stops at the first exception.
\<close>

type_synonym parse_state = "pydict \<times> nat"

fun for_each :: "('s \<Rightarrow> 'a \<Rightarrow> py_error + 's) \<Rightarrow> 'a list \<Rightarrow> 's \<Rightarrow> py_error + 's" where
  "for_each body [] st = Inr st"
| "for_each body (x # xs) st =
     (case body st x of Inl e \<Rightarrow> Inl e | Inr st' \<Rightarrow> for_each body xs st')"

text \<open>
  Two float fields read from \<open>parts[i]\<close> and \<open>parts[j]\<close>, as three of the four W-2 branches
  do; the indices are in range where the callers have checked \<open>len(parts)\<close>.
\<close>

definition set_two_amounts ::
  "py_lib \<Rightarrow> parse_state \<Rightarrow> string list \<Rightarrow> string \<Rightarrow> nat \<Rightarrow> string \<Rightarrow> nat
     \<Rightarrow> py_error + pydict" where
  "set_two_amounts L st parts k1 i k2 j =
     (case py_float L (remove_commas (parts ! i)) of
        Inl e \<Rightarrow> Inl e
      | Inr a \<Rightarrow>
          (case py_float L (remove_commas (parts ! j)) of
             Inl e \<Rightarrow> Inl e
           | Inr b \<Rightarrow> Inr (dict_set (dict_set (fst st) k1 (PFloat a)) k2 (PFloat b))))"

definition w2_line :: "py_lib \<Rightarrow> parse_state \<Rightarrow> string \<Rightarrow> py_error + parse_state" where
  "w2_line L st line =
     (let parts = py_split line in
      if py_in ''11-1111111'' line \<and> py_in ''50,000'' line \<and> py_in ''8,000'' line then
        (if length parts \<ge> 3 then
           (case set_two_amounts L st parts ''wages'' 1 ''federal_tax_withheld'' 2 of
              Inl e \<Rightarrow> Inl e
            | Inr d \<Rightarrow> Inr (d, snd st + 2))
         else Inr st)
      else if py_in ''50,000'' line \<and> py_in ''3,100'' line then
        (if length parts \<ge> 2 then
           (case set_two_amounts L st parts ''social_security_wages'' 0 ''social_security_tax'' 1 of
              Inl e \<Rightarrow> Inl e
            | Inr d \<Rightarrow> Inr (d, snd st + 2))
         else Inr st)
      else if py_in ''50,000'' line \<and> py_in ''725'' line then
        (if length parts \<ge> 2 then
           (case set_two_amounts L st parts ''medicare_wages'' 0 ''medicare_tax'' 1 of
              Inl e \<Rightarrow> Inl e
            | Inr d \<Rightarrow> Inr (d, snd st + 2))
         else Inr st)
      else if py_in ''50,000'' line \<and> py_in ''2,000'' line \<and> py_in ''CA'' line then
        (if length parts \<ge> 3 then
           (case set_two_amounts L st parts ''state_wages'' 0 ''state_tax'' 1 of
              Inl e \<Rightarrow> Inl e
            | Inr d \<Rightarrow> Inr (dict_set d ''state'' (PStr (parts ! 2)), snd st + 3))
         else Inr st)
      else Inr st)"

text \<open>
  The second loop of each parser, over the pattern table: \<open>id_fields\<close> take the first
  match as it is, \<open>name_fields\<close> take it stripped if it is longer than two characters.
  The three parsers differ in the table and in these two lists only.
\<close>

definition regex_field ::
  "py_lib \<Rightarrow> string \<Rightarrow> string list \<Rightarrow> string list \<Rightarrow> parse_state \<Rightarrow> (string \<times> string)
     \<Rightarrow> parse_state" where
  "regex_field L text id_fields name_fields st fp =
     (let field_name = fst fp; pattern = snd fp in
      if \<not> dict_has (fst st) field_name then
        (case re_findall L pattern text of
           [] \<Rightarrow> st
         | m # ms \<Rightarrow>
             (if field_name \<in> set id_fields then
                (dict_set (fst st) field_name (PStr m), snd st + 1)
              else if field_name \<in> set name_fields then
                (let name = py_strip m in
                 if name \<noteq> [] \<and> length name > 2
                 then (dict_set (fst st) field_name (PStr name), snd st + 1)
                 else st)
              else st))
      else st)"

definition regex_phase ::
  "py_lib \<Rightarrow> string \<Rightarrow> (string \<times> string) list \<Rightarrow> string list \<Rightarrow> string list
     \<Rightarrow> parse_state \<Rightarrow> parse_state" where
  "regex_phase L text patterns id_fields name_fields st =
     foldl (regex_field L text id_fields name_fields) st patterns"

definition parse_confidence :: "nat \<Rightarrow> nat \<Rightarrow> real" where
  "parse_confidence total_matches expected_fields =
     (if expected_fields > 0 then real total_matches / real expected_fields else 0)"

definition parse_w2_data :: "py_lib \<Rightarrow> string \<Rightarrow> py_error + (pydict \<times> real)" where
  "parse_w2_data L text =
     (case for_each (w2_line L) (split_on CHR ''\<newline>'' text) ([], 0) of
        Inl e \<Rightarrow> Inl e
      | Inr st \<Rightarrow>
          (let st' = regex_phase L text w2_patterns
                       [''employer_ein'', ''employee_ssn'']
                       [''employer_name'', ''employee_name''] st
           in Inr (fst st', parse_confidence (snd st') (length w2_patterns))))"

text \<open>
  The line branch of the two 1099 parsers: the first part that is a digit string of
  value \<open>amount\<close> is stored and counted; \<open>break\<close> leaves the loop over the parts only.
\<close>

definition amount_line ::
  "py_lib \<Rightarrow> string \<Rightarrow> string \<Rightarrow> string \<Rightarrow> nat \<Rightarrow> parse_state \<Rightarrow> string
     \<Rightarrow> py_error + parse_state" where
  "amount_line L marker1 marker2 field_name amount st line =
     (if py_in marker1 line \<and> py_in marker2 line then
        (case find (\<lambda>part. py_isdigit (remove_commas part)
                            \<and> digits_value (remove_commas part) = amount)
                   (py_split line) of
           None \<Rightarrow> Inr st
         | Some part \<Rightarrow>
             (case py_float L (remove_commas part) of
                Inl e \<Rightarrow> Inl e
              | Inr a \<Rightarrow> Inr (dict_set (fst st) field_name (PFloat a), snd st + 1)))
      else Inr st)"

definition parse_1099_int_data :: "py_lib \<Rightarrow> string \<Rightarrow> py_error + (pydict \<times> real)" where
  "parse_1099_int_data L text =
     (case for_each (amount_line L ''789 Bank St'' ''300'' ''interest_income'' 300)
             (split_on CHR ''\<newline>'' text) ([], 0) of
        Inl e \<Rightarrow> Inl e
      | Inr st \<Rightarrow>
          (let st' = regex_phase L text int_1099_patterns
                       [''payer_tin'', ''recipient_ssn'']
                       [''payer_name'', ''recipient_name''] st
           in Inr (fst st', parse_confidence (snd st') (length int_1099_patterns))))"

definition parse_1099_nec_data :: "py_lib \<Rightarrow> string \<Rightarrow> py_error + (pydict \<times> real)" where
  "parse_1099_nec_data L text =
     (case for_each (amount_line L ''33-3333333'' ''10,000'' ''nonemployee_compensation'' 10000)
             (split_on CHR ''\<newline>'' text) ([], 0) of
        Inl e \<Rightarrow> Inl e
      | Inr st \<Rightarrow>
          (let st' = regex_phase L text nec_1099_patterns
                       [''payer_tin'', ''recipient_ssn'']
                       [''payer_name'', ''recipient_name''] st
           in Inr (fst st', parse_confidence (snd st') (length nec_1099_patterns))))"

text \<open>
  \<open>process_document\<close>, from the text that \<open>extract_text_from_pdf\<close> returned for the file
  and the base name of its path.
\<close>

definition process_document :: "py_lib \<Rightarrow> string \<Rightarrow> string \<Rightarrow> py_error + ExtractedData" where
  "process_document L fname text =
     (if text = [] then
        Inr \<lparr>document_type = UNKNOWN, confidence_score = 0, data = [],
             raw_text = [], filename = fname\<rparr>
      else
        (let (doc_type, type_confidence) = detect_document_type text in
         case (if doc_type = W2 then parse_w2_data L text
               else if doc_type = INT_1099 then parse_1099_int_data L text
               else if doc_type = NEC_1099 then parse_1099_nec_data L text
               else Inr ([], 0)) of
           Inl e \<Rightarrow> Inl e
         | Inr (data', parse_conf) \<Rightarrow>
             Inr \<lparr>document_type = doc_type,
                  confidence_score = (type_confidence + parse_conf) / 2,
                  data = data',
                  raw_text = text,
                  filename = fname\<rparr>))"


subsection \<open>Validation of an extraction\<close>

record ValidationResult =
  is_valid :: bool
  errors :: "string list"
  warnings :: "string list"
  suggestions :: "string list"

definition validate_extracted_data :: "ExtractedData \<Rightarrow> ValidationResult" where
  "validate_extracted_data extracted =
     (let errors1 = (if confidence_score extracted < 0.5
                     then [''Low confidence in document parsing''] else []);
          errors2 = errors1 @ (if document_type extracted = UNKNOWN
                               then [''Could not determine document type''] else []);
          warnings' =
            (if document_type extracted = W2
             then map (\<lambda>field. ''Missing required field: '' @ field)
                      (filter (\<lambda>field. \<not> dict_has (data extracted) field)
                              [''wages'', ''federal_tax_withheld''])
             else []);
          suggestions' =
            (if document_type extracted \<noteq> W2
                \<and> document_type extracted \<in> set [INT_1099, NEC_1099]
                \<and> \<not> dict_has (data extracted) ''federal_tax_withheld''
             then [''No federal tax withheld found (this may be normal)'']
             else [])
      in \<lparr>is_valid = (data extracted \<noteq> [] \<and> errors2 = []),
          errors = errors2,
          warnings = warnings',
          suggestions = suggestions'\<rparr>)"

section \<open>Income aggregation (routes/calculate.py)\<close>

record IncomeData =
  wages :: real
  interest_income :: real
  nonemployee_compensation :: real
  federal_income_tax_withheld :: real

definition income_data_init :: IncomeData where
  "income_data_init =
     \<lparr>wages = 0, interest_income = 0, nonemployee_compensation = 0,
      federal_income_tax_withheld = 0\<rparr>"

text \<open>\<open>total += value\<close> with a number on the left; a string or \<open>None\<close> raises.\<close>

fun py_add :: "real \<Rightarrow> pyval \<Rightarrow> py_error + real" where
  "py_add a (PInt i) = Inr (a + real_of_int i)"
| "py_add a (PFloat x) = Inr (a + x)"
| "py_add a (PStr s) = Inl TypeError"
| "py_add a PNone = Inl TypeError"

text \<open>
  The second statement of each branch. An exception anywhere in the \<open>try\<close> body is
  caught by the route, which keeps what was added before it.
\<close>

definition add_withheld :: "IncomeData \<Rightarrow> ExtractedData \<Rightarrow> IncomeData" where
  "add_withheld income extracted =
     (case py_add (federal_income_tax_withheld income)
                  (dict_get (data extracted) ''federal_tax_withheld'' (PInt 0)) of
        Inl e \<Rightarrow> income
      | Inr f \<Rightarrow> income\<lparr>federal_income_tax_withheld := f\<rparr>)"




section \<open>Notions of the specification used in the statements\<close>


text \<open>
  The score of a candidate type as the specification words it (indicators present over
  indicators defined), and the fixed priority order of the candidates.
\<close>

fun spec_indicators :: "DocumentType \<Rightarrow> string list" where
  "spec_indicators W2 = w2_indicators"
| "spec_indicators INT_1099 = int_indicators"
| "spec_indicators NEC_1099 = nec_indicators"
| "spec_indicators UNKNOWN = []"

definition spec_score :: "string \<Rightarrow> DocumentType \<Rightarrow> real" where
  "spec_score text t =
     real (card {i \<in> set (spec_indicators t). py_in i (py_upper text)})
       / real (card (set (spec_indicators t)))"

fun spec_priority :: "DocumentType \<Rightarrow> nat" where
  "spec_priority W2 = 0"
| "spec_priority INT_1099 = 1"
| "spec_priority NEC_1099 = 2"
| "spec_priority UNKNOWN = 3"





definition entry_of :: "real \<Rightarrow> TaxBracket \<Rightarrow> BracketEntry" where
  "entry_of x b =
     \<lparr>bracket = b, taxable_in_bracket = taxable_in_bracket_of x b,
      tax_for_bracket = calculate_tax_for_bracket x b\<rparr>"

text \<open>Field-wise sum of two income records, and what one outcome adds to a record\<close>

definition income_plus :: "IncomeData \<Rightarrow> IncomeData \<Rightarrow> IncomeData" where
  "income_plus a b =
     \<lparr>wages = wages a + wages b,
      interest_income = interest_income a + interest_income b,
      nonemployee_compensation = nonemployee_compensation a + nonemployee_compensation b,
      federal_income_tax_withheld =
        federal_income_tax_withheld a + federal_income_tax_withheld b\<rparr>"


text \<open>
  The text of a file that holds two copies of the sample W-2 (a W-2 is issued in several
  copies, and a scan of the whole sheet carries them all).
\<close>

definition w2_copy_lines :: "string list" where
  "w2_copy_lines =
     [''11-1111111 50,000 8,000'', ''50,000 3,100'', ''50,000 725'', ''50,000 2,000 CA'']"

definition two_copies_w2_lines :: "string list" where
  "two_copies_w2_lines =
     [''Form W-2 Wage and Tax Statement'', ''Employer identification number'']
       @ w2_copy_lines @ w2_copy_lines"

fun join_lines :: "string list \<Rightarrow> string" where
  "join_lines [] = []"
| "join_lines [l] = l"
| "join_lines (l # ls) = l @ CHR ''\<newline>'' # join_lines ls"

definition two_copies_w2 :: string where
  "two_copies_w2 = join_lines two_copies_w2_lines"

section \<open>Properties of the tax calculator\<close>

subsection \<open>The two loops as sums and filters\<close>


lemma marginal_tax_loop_filter:
  "marginal_tax_loop x bs acc =
     acc + sum_list (map (calculate_tax_for_bracket x) (filter (\<lambda>b. x > min_income b) bs))"
  by (induction bs arbitrary: acc) auto

lemma bracket_breakdown_loop_filter:
  "bracket_breakdown_loop x bs acc =
     acc @ map (entry_of x) (filter (\<lambda>b. x > min_income b) bs)"
  by (induction bs arbitrary: acc) (auto simp: entry_of_def)

lemma tax_for_bracket_entry_of: "tax_for_bracket \<circ> entry_of x = calculate_tax_for_bracket x"
  by (rule ext) (simp add: entry_of_def)

lemma bracket_entry_of: "bracket \<circ> entry_of x = id"
  by (rule ext) (simp add: entry_of_def)

lemma taxable_entry_of: "taxable_in_bracket \<circ> entry_of x = taxable_in_bracket_of x"
  by (rule ext) (simp add: entry_of_def)

subsection \<open>Monotonicity\<close>





subsection \<open>Slope inside a bracket\<close>











lemma tables_sorted:
  "sorted_wrt (\<lambda>a b. min_income a < min_income b) (get_brackets_for_status s)"
  by (cases s)
     (simp_all add: single_brackets_def married_brackets_def hoh_brackets_def mk_bracket_def)



text \<open>
  C2. For every taxable income and filing status, the \<open>tax_for_bracket\<close> entries of the
  breakdown sum to the marginal tax, and the breakdown lists exactly the brackets of the
  table with \<open>taxable_income > min_income\<close>, in the ascending order of the table.
\<close>

theorem bracket_breakdown_sums_to_marginal_tax:
  "sum_list (map tax_for_bracket (get_bracket_breakdown x s)) = calculate_marginal_tax x s
   \<and> map bracket (get_bracket_breakdown x s)
       = filter (\<lambda>b. x > min_income b) (get_brackets_for_status s)
   \<and> sorted_wrt (\<lambda>a b. min_income a < min_income b)
       (map bracket (get_bracket_breakdown x s))"
proof -
  let ?reached = "filter (\<lambda>b. x > min_income b) (get_brackets_for_status s)"
  have bd: "get_bracket_breakdown x s = map (entry_of x) ?reached"
    by (simp add: get_bracket_breakdown_def bracket_breakdown_loop_filter)
  have tax: "calculate_marginal_tax x s = sum_list (map (calculate_tax_for_bracket x) ?reached)"
    by (simp add: calculate_marginal_tax_def marginal_tax_loop_filter)
  have m: "map bracket (get_bracket_breakdown x s) = ?reached"
    by (simp add: bd bracket_entry_of)
  have "sorted_wrt (\<lambda>a b. min_income a < min_income b) ?reached"
    using tables_sorted by (rule sorted_wrt_filter)
  then show ?thesis
    by (simp add: m) (simp add: bd tax tax_for_bracket_entry_of)
qed

lemmas tax_eval_defs =
  calculate_tax_def py_lower_def lower_char_def FilingStatus_of_value_def
  calculate_standard_deduction_def calculate_marginal_tax_def single_brackets_def
  mk_bracket_def calculate_tax_for_bracket_def taxable_in_bracket_of_def Let_def

text \<open>
  C3. The end-to-end scenario: a single filer aged 30 with wages 50000 and 8000 withheld
  gets standard deduction 14600, taxable income 35400, tax liability
  \<open>10% * 11600 + 12% * 23800 = 4016\<close> and a refund of 3984.
\<close>

theorem calculate_tax_single_scenario:
  "\<exists>r. calculate_tax ''single'' 50000 0 0 8000 0 30 = Inr r
       \<and> standard_deduction r = 14600
       \<and> taxable_income r = 35400
       \<and> tax_liability r = 4016
       \<and> tax_liability r = 0.10 * 11600 + 0.12 * 23800
       \<and> refund_or_amount_owed r = 3984"
  by (simp add: tax_eval_defs)

text \<open>
  C9. With \<open>age \<ge> 65\<close> the standard deduction is the base deduction of the filing
  status plus the addon of that status (1850 single, 1500 married, 1850 head of
  household); with \<open>age < 65\<close> it is the base deduction.
\<close>

theorem standard_deduction_age_addon:
  "(age \<ge> 65 \<longrightarrow>
      calculate_standard_deduction s age =
        standard_deductions s
          + (case s of SINGLE \<Rightarrow> 1850 | MARRIED \<Rightarrow> 1500 | HEAD_OF_HOUSEHOLD \<Rightarrow> 1850))
   \<and> (age < 65 \<longrightarrow> calculate_standard_deduction s age = standard_deductions s)"
  by (cases s) (simp_all add: calculate_standard_deduction_def)

theorem standard_deduction_age_addon_witness:
  "(65::int) \<ge> 65 \<and> calculate_standard_deduction MARRIED 65 = 29200 + 1500
   \<and> (64::int) < 65 \<and> calculate_standard_deduction MARRIED 64 = 29200"
  using standard_deduction_age_addon [of 65 MARRIED]
        standard_deduction_age_addon [of 64 MARRIED]
  by simp

lemma FilingStatus_of_value_cases:
  "FilingStatus_of_value v = (if v \<in> set valid_statuses
     then Inr (if v = ''single'' then SINGLE else if v = ''married'' then MARRIED
               else HEAD_OF_HOUSEHOLD)
     else Inl ValueError)"
  by (simp add: FilingStatus_of_value_def valid_statuses_def)

lemma negative_error_listed:
  assumes "(k, v) \<in> set kwargs" "is_number v" "number_of v < 0"
  shows "k @ '' cannot be negative'' \<in> set (negative_errors kwargs)"
proof -
  have "(k, v) \<in> set (filter (\<lambda>(key, v). is_number v \<and> number_of v < 0) kwargs)"
    using assms by simp
  then have "(\<lambda>(key, v). key @ '' cannot be negative'') (k, v) \<in> set (negative_errors kwargs)"
    unfolding negative_errors_def set_map by (rule imageI)
  then show ?thesis by simp
qed

lemma validate_inputs_errors:
  assumes "validate_inputs kwargs = Inr res"
  shows "set (negative_errors kwargs) \<subseteq> set (iv_errors res)"
    and "iv_is_valid res = (iv_errors res = [])"
  using assms
  by (auto simp: validate_inputs_def Let_def split: option.splits sum.splits bool.splits if_splits)

text \<open>
  C10. \<open>calculate_tax\<close> checks no number: for any amounts, negative ones included, it
  returns a result whenever the lowercased filing status is one of the three values,
  with \<open>total_income\<close> the plain sum of the three incomes and \<open>total_payments\<close> the
  withholding as given; it raises \<open>ValueError\<close> exactly when the lowercased string is
  none of the three. Negative numbers are rejected by \<open>validate_inputs\<close>: whenever it
  returns for arguments holding a negative number, the result is invalid and lists
  that argument.
\<close>

theorem calculate_tax_no_numeric_validation:
  "(py_lower fs \<in> set valid_statuses \<longrightarrow>
      (\<exists>r. calculate_tax fs w i n f deps age = Inr r
            \<and> total_income r = w + i + n \<and> total_payments r = f))
   \<and> (py_lower fs \<notin> set valid_statuses \<longrightarrow>
        calculate_tax fs w i n f deps age = Inl ValueError)
   \<and> ((k, v) \<in> set kwargs \<and> is_number v \<and> number_of v < 0
        \<and> validate_inputs kwargs = Inr res \<longrightarrow>
          \<not> iv_is_valid res \<and> k @ '' cannot be negative'' \<in> set (iv_errors res))"
proof (intro conjI impI)
  assume "py_lower fs \<in> set valid_statuses"
  then show "\<exists>r. calculate_tax fs w i n f deps age = Inr r
            \<and> total_income r = w + i + n \<and> total_payments r = f"
    by (simp add: calculate_tax_def FilingStatus_of_value_cases Let_def)
next
  assume "py_lower fs \<notin> set valid_statuses"
  then show "calculate_tax fs w i n f deps age = Inl ValueError"
    by (simp add: calculate_tax_def FilingStatus_of_value_cases)
next
  assume h: "(k, v) \<in> set kwargs \<and> is_number v \<and> number_of v < 0
        \<and> validate_inputs kwargs = Inr res"
  then have listed: "k @ '' cannot be negative'' \<in> set (iv_errors res)"
    using negative_error_listed[of k v kwargs] validate_inputs_errors(1)[of kwargs res]
    by blast
  then show "k @ '' cannot be negative'' \<in> set (iv_errors res)" .
  from listed have "iv_errors res \<noteq> []" by auto
  with h show "\<not> iv_is_valid res"
    using validate_inputs_errors(2)[of kwargs res] by simp
qed

theorem calculate_tax_no_numeric_validation_witness:
  "py_lower ''Single'' \<in> set valid_statuses
   \<and> (\<exists>r. calculate_tax ''Single'' (-5) (-1) (-2) (-3) 0 30 = Inr r
          \<and> total_income r = (-5) + (-1) + (-2) \<and> total_payments r = -3)
   \<and> py_lower ''unknown_status'' \<notin> set valid_statuses
   \<and> calculate_tax ''unknown_status'' (-5) (-1) (-2) (-3) 0 30 = Inl ValueError
   \<and> (''wages'', PFloat (-5)) \<in> set [(''wages'', PFloat (-5))]
   \<and> is_number (PFloat (-5)) \<and> number_of (PFloat (-5)) < 0
   \<and> validate_inputs [(''wages'', PFloat (-5))]
        = Inr \<lparr>iv_is_valid = False, iv_errors = [''wages cannot be negative''],
               iv_warnings = []\<rparr>
   \<and> \<not> iv_is_valid \<lparr>iv_is_valid = False, iv_errors = [''wages cannot be negative''],
               iv_warnings = []\<rparr>
   \<and> ''wages'' @ '' cannot be negative''
        \<in> set (iv_errors \<lparr>iv_is_valid = False, iv_errors = [''wages cannot be negative''],
               iv_warnings = []\<rparr>)"
proof -
  have a: "py_lower ''Single'' \<in> set valid_statuses"
    by (simp add: py_lower_def lower_char_def valid_statuses_def)
  have b: "py_lower ''unknown_status'' \<notin> set valid_statuses"
    by (simp add: py_lower_def lower_char_def valid_statuses_def)
  have c: "validate_inputs [(''wages'', PFloat (-5))]
        = Inr \<lparr>iv_is_valid = False, iv_errors = [''wages cannot be negative''],
               iv_warnings = []\<rparr>"
    by (simp add: validate_inputs_def negative_errors_def filing_status_errors_def)
  show ?thesis
    using a b c
      calculate_tax_no_numeric_validation
        [of "''Single''" "-5" "-1" "-2" "-3" 0 30 "''wages''" "PFloat (-5)"
            "[(''wages'', PFloat (-5))]"
            "\<lparr>iv_is_valid = False, iv_errors = [''wages cannot be negative''],
               iv_warnings = []\<rparr>"]
      calculate_tax_no_numeric_validation
        [of "''unknown_status''" "-5" "-1" "-2" "-3" 0 30 "''wages''" "PFloat (-5)"
            "[(''wages'', PFloat (-5))]"
            "\<lparr>iv_is_valid = False, iv_errors = [''wages cannot be negative''],
               iv_warnings = []\<rparr>"]
    by simp
qed

section \<open>Properties of the document processor\<close>

subsection \<open>Classification\<close>

lemma max_by_score_three:
  "max_by_score (k1, a) [(k2, b), (k3, c)] =
     (if b > a then (if c > b then (k3, c) else (k2, b))
      else (if c > a then (k3, c) else (k1, a)))"
  by simp

lemma distinct_indicators:
  "distinct w2_indicators" "distinct int_indicators" "distinct nec_indicators"
  by (simp_all add: w2_indicators_def int_indicators_def nec_indicators_def)

lemma length_indicators:
  "length w2_indicators = 3" "length int_indicators = 3" "length nec_indicators = 3"
  by (simp_all add: w2_indicators_def int_indicators_def nec_indicators_def)

lemma card_present:
  assumes "distinct xs"
  shows "card {i \<in> set xs. P i} = length (filter P xs)"
proof -
  have s: "{i \<in> set xs. P i} = set (filter P xs)" by auto
  have d: "distinct (filter P xs)" using assms by simp
  show ?thesis unfolding s using d by (rule distinct_card)
qed

lemma spec_score_candidates:
  "spec_score text W2 = real (count_present w2_indicators (py_upper text)) / 3"
  "spec_score text INT_1099 = real (count_present int_indicators (py_upper text)) / 3"
  "spec_score text NEC_1099 = real (count_present nec_indicators (py_upper text)) / 3"
  by (simp_all add: spec_score_def count_present_def card_present distinct_indicators
        distinct_card length_indicators)

lemma detect_document_type_scores:
  "detect_document_type text =
     max_by_score (W2, spec_score text W2)
       [(INT_1099, spec_score text INT_1099), (NEC_1099, spec_score text NEC_1099)]"
  by (simp only: detect_document_type_def Let_def spec_score_candidates length_indicators)
     simp

text \<open>
  C7. The type returned by \<open>detect_document_type\<close> is one of the three candidates, the
  confidence returned is its score, no candidate has a larger score, and every candidate
  with the same score comes later in the order W2, INT\_1099, NEC\_1099.
\<close>

theorem detect_document_type_max_priority:
  "detect_document_type text = (t, c) \<Longrightarrow>
     t \<in> {W2, INT_1099, NEC_1099} \<and> c = spec_score text t
     \<and> (\<forall>t' \<in> {W2, INT_1099, NEC_1099}.
           spec_score text t' \<le> c
           \<and> (spec_score text t' = c \<longrightarrow> spec_priority t \<le> spec_priority t'))"
  unfolding detect_document_type_scores max_by_score_three
  by (auto split: if_splits)

theorem detect_document_type_max_priority_witness:
  "detect_document_type ''Payer's name: First Bank'' = (INT_1099, 1 / 3)
   \<and> INT_1099 \<in> {W2, INT_1099, NEC_1099}
   \<and> 1 / 3 = spec_score ''Payer's name: First Bank'' INT_1099
   \<and> spec_score ''Payer's name: First Bank'' W2 \<le> 1 / 3
   \<and> spec_score ''Payer's name: First Bank'' NEC_1099 \<le> 1 / 3
   \<and> spec_priority INT_1099 \<le> spec_priority NEC_1099"
proof -
  have h: "detect_document_type ''Payer's name: First Bank'' = (INT_1099, 1 / 3)"
    by (simp add: detect_document_type_def count_present_def w2_indicators_def
          int_indicators_def nec_indicators_def py_upper_def upper_char_def)
  show ?thesis
    using h detect_document_type_max_priority [OF h] by simp
qed

subsection \<open>Validation\<close>

text \<open>
  C6. The empty text is classified as W2, the first candidate, with confidence 0, and an
  extraction with confidence 0 is never valid.
\<close>

theorem empty_text_first_type_and_invalid:
  "detect_document_type '''' = (W2, 0)
   \<and> (confidence_score r = 0 \<longrightarrow> \<not> is_valid (validate_extracted_data r))"
  by (simp add: detect_document_type_def count_present_def w2_indicators_def
        int_indicators_def nec_indicators_def py_upper_def validate_extracted_data_def)

theorem empty_text_first_type_and_invalid_witness:
  "detect_document_type '''' = (W2, 0)
   \<and> confidence_score \<lparr>document_type = W2, confidence_score = 0,
        data = [(''wages'', PFloat 50000)], raw_text = [], filename = ''w2.pdf''\<rparr> = 0
   \<and> \<not> is_valid (validate_extracted_data
        \<lparr>document_type = W2, confidence_score = 0,
         data = [(''wages'', PFloat 50000)], raw_text = [], filename = ''w2.pdf''\<rparr>)"
  using empty_text_first_type_and_invalid
          [of "\<lparr>document_type = W2, confidence_score = 0,
                data = [(''wages'', PFloat 50000)], raw_text = [], filename = ''w2.pdf''\<rparr>"]
  by simp

text \<open>
  C8. An extraction is valid exactly when its field dictionary is not empty and no error
  was raised; no error is raised exactly when the confidence is at least 0.5 and the type
  is not UNKNOWN. Validity is therefore decided by the dictionary being non-empty, the
  confidence and the type alone: warnings and suggestions play no part in it, as for the
  W-2 extraction below, valid with both required fields missing.
\<close>

theorem validate_extracted_data_valid_iff:
  "is_valid (validate_extracted_data r)
     = (data r \<noteq> [] \<and> errors (validate_extracted_data r) = [])
   \<and> (errors (validate_extracted_data r) = [])
     = (confidence_score r \<ge> 0.5 \<and> document_type r \<noteq> UNKNOWN)
   \<and> is_valid (validate_extracted_data r)
     = (data r \<noteq> [] \<and> confidence_score r \<ge> 0.5 \<and> document_type r \<noteq> UNKNOWN)
   \<and> validate_extracted_data
         \<lparr>document_type = W2, confidence_score = 0.5,
          data = [(''employer_ein'', PStr ''11-1111111'')], raw_text = [], filename = []\<rparr>
     = \<lparr>is_valid = True, errors = [],
        warnings = [''Missing required field: wages'',
                    ''Missing required field: federal_tax_withheld''],
        suggestions = []\<rparr>"
  by (auto simp: validate_extracted_data_def Let_def dict_has_def)

section \<open>The confidence of an extraction\<close>

lemma regex_field_total_mono:
  "snd st \<le> snd (regex_field L text id_fields name_fields st fp)"
  by (simp add: regex_field_def Let_def split: list.splits)

lemma regex_phase_total_mono:
  "snd st \<le> snd (regex_phase L text patterns id_fields name_fields st)"
  unfolding regex_phase_def
proof (induction patterns arbitrary: st)
  case Nil
  then show ?case by simp
next
  case (Cons fp fps)
  have "snd st \<le> snd (regex_field L text id_fields name_fields st fp)"
    by (rule regex_field_total_mono)
  also have "\<dots> \<le> snd (foldl (regex_field L text id_fields name_fields)
                         (regex_field L text id_fields name_fields st fp) fps)"
    by (rule Cons.IH)
  finally show ?case by simp
qed

lemma length_w2_patterns: "length w2_patterns = 13"
  by (simp add: w2_patterns_def)

lemma split_two_copies: "split_on CHR ''\<newline>'' two_copies_w2 = two_copies_w2_lines"
  by (simp add: two_copies_w2_def two_copies_w2_lines_def w2_copy_lines_def)

lemma detect_two_copies: "detect_document_type two_copies_w2 = (W2, 1)"
  by (simp add: two_copies_w2_def two_copies_w2_lines_def w2_copy_lines_def
        detect_document_type_def count_present_def w2_indicators_def
        int_indicators_def nec_indicators_def py_upper_def upper_char_def)

lemmas float_eval_defs =
  py_float_def remove_commas_def plain_decimal_def decimal_value_def is_digit_def
  digit_of_def digits_value_def

lemma w2_copy_lines_count:
  "\<exists>d. for_each (w2_line L) w2_copy_lines (d0, n) = Inr (d, n + 9)"
  by (simp add: w2_copy_lines_def w2_line_def set_two_amounts_def py_split_def
        is_space_def float_eval_defs)

lemma for_each_append:
  "for_each body (xs @ ys) st =
     (case for_each body xs st of Inl e \<Rightarrow> Inl e | Inr st' \<Rightarrow> for_each body ys st')"
  by (induction xs arbitrary: st) (auto split: sum.splits)

lemma w2_header_lines:
  "for_each (w2_line L)
     [''Form W-2 Wage and Tax Statement'', ''Employer identification number''] st = Inr st"
  by (simp add: w2_line_def)

lemma two_copies_line_count:
  "\<exists>d. for_each (w2_line L) two_copies_w2_lines ([], 0) = Inr (d, 18)"
proof -
  obtain d1 where d1: "for_each (w2_line L) w2_copy_lines ([], 0) = Inr (d1, 9)"
    using w2_copy_lines_count[of L "[]" 0] by auto
  obtain d2 where d2: "for_each (w2_line L) w2_copy_lines (d1, 9) = Inr (d2, 18)"
    using w2_copy_lines_count[of L d1 9] by auto
  show ?thesis
    unfolding two_copies_w2_lines_def for_each_append w2_header_lines
    by (simp add: d1 d2)
qed

text \<open>
  C4 fails on the code. For the text of a file with two copies of the sample W-2, whatever
  \<open>re.findall\<close> returns: the line loop counts each of the nine amount fields twice, so the
  parse confidence is at least \<open>18 / 13\<close>; the classifier confidence is 1; the
  confidence score of the extraction is at least \<open>31 / 26\<close>, above 1.
\<close>

theorem two_copies_confidence_above_one:
  "\<exists>r. process_document L fname two_copies_w2 = Inr r
       \<and> document_type r = W2
       \<and> 31 / 26 \<le> confidence_score r \<and> 1 < confidence_score r"
proof -
  obtain d where d: "for_each (w2_line L) two_copies_w2_lines ([], 0) = Inr (d, 18)"
    using two_copies_line_count by blast
  define st where "st = regex_phase L two_copies_w2 w2_patterns
                       [''employer_ein'', ''employee_ssn'']
                       [''employer_name'', ''employee_name''] (d, 18)"
  have total: "18 \<le> snd st"
    unfolding st_def using regex_phase_total_mono[of "(d, 18)"] by simp
  have parse: "parse_w2_data L two_copies_w2 = Inr (fst st, real (snd st) / 13)"
    by (simp add: parse_w2_data_def split_two_copies d st_def Let_def
          parse_confidence_def length_w2_patterns)
  have ne: "two_copies_w2 \<noteq> []"
    by (simp add: two_copies_w2_def two_copies_w2_lines_def)
  have res: "process_document L fname two_copies_w2 =
          Inr \<lparr>document_type = W2, confidence_score = (1 + real (snd st) / 13) / 2,
               data = fst st, raw_text = two_copies_w2, filename = fname\<rparr>"
    by (simp add: process_document_def ne detect_two_copies parse)
  have "18 \<le> real (snd st)" using total by simp
  then have "31 / 26 \<le> (1 + real (snd st) / 13) / 2" by simp
  then show ?thesis by (simp add: res)
qed

section \<open>Properties of the income aggregation\<close>

lemma py_add_shift:
  "py_add a v = (case py_add 0 v of Inl e \<Rightarrow> Inl e | Inr x \<Rightarrow> Inr (a + x))"
  by (cases v) simp_all

lemma add_withheld_plus:
  "add_withheld income extracted =
     income_plus income (add_withheld income_data_init extracted)"
  unfolding add_withheld_def income_plus_def income_data_init_def
  by (subst py_add_shift) (simp split: sum.splits)















end
